theory Spec2Isabelle
  imports Main "HOL-Library.Word"
begin

section \<open>Uploaded files: the constructor newUploadedFile and the save methods\<close>

text \<open>
  A shallow embedding of the upload handling of \<^verbatim>\<open>src/repl.go\<close> (the second Go file of the
  concatenation: \<^verbatim>\<open>newUploadedFile\<close>, \<^verbatim>\<open>UploadedFile.write\<close>, \<^verbatim>\<open>uploadedfileSave\<close>,
  \<^verbatim>\<open>uploadedfileSaveIn\<close>, \<^verbatim>\<open>uploadedfileSize\<close> and the Lua constructor registered by
  \<^verbatim>\<open>exportUploadedFile\<close>).

  Conventions.
  \<^item> Go's \<^verbatim>\<open>int\<close> and \<^verbatim>\<open>int64\<close> are 64 bits wide; values are HOL integers and the
    wrap-around is written out (\<open>int64\<close>) at the two places where the source computes
    with values it does not control.
  \<^item> A Go \<^verbatim>\<open>error\<close> value is a \<open>goError\<close>; \<^verbatim>\<open>nil\<close> is \<open>None\<close>.
  \<^item> A run-time panic is the outcome \<open>Panic\<close>.
  \<^item> The file system and the log are the \<open>world\<close>, passed through every operation.
  \<^item> Library calls (\<^verbatim>\<open>strconv.Atoi\<close>, \<^verbatim>\<open>io.CopyN\<close>, \<^verbatim>\<open>bytes.Buffer\<close>,
    \<^verbatim>\<open>filepath.Join\<close>, \<^verbatim>\<open>os.Stat\<close>, \<^verbatim>\<open>os.OpenFile\<close>) are modelled by their documented
    behaviour; what \<^verbatim>\<open>ParseMultipartForm\<close> and \<^verbatim>\<open>FormFile\<close> return is part of the request.
    Allocating a non-negative number of bytes is taken to succeed.
\<close>

type_synonym byte = "8 word"

subsection \<open>Constants\<close>

text \<open>Modelled from the spec: the constant \<^verbatim>\<open>MiB\<close> is not declared in the source file; the
  spec's scenario A reads 5 MiB as 5 * 1024 * 1024 bytes.\<close>

definition MiB :: int where
  "MiB = 1024 * 1024"

definition defaultUploadLimit :: int where
  "defaultUploadLimit = 32 * MiB"

definition defaultMemoryLimit :: int where
  "defaultMemoryLimit = 32 * MiB"

definition chunkSize :: int where
  "chunkSize = defaultMemoryLimit"

subsection \<open>Machine integers and strconv.Atoi\<close>

text \<open>The value of a 64-bit two's complement integer after an operation whose exact result
  is \<open>x\<close>.\<close>

definition int64 :: "int \<Rightarrow> int" where
  "int64 x = (x + 2 ^ 63) mod 2 ^ 64 - 2 ^ 63"

datatype numError = ErrSyntax | ErrRange

definition isDigit :: "char \<Rightarrow> bool" where
  "isDigit c = (c \<in> set ''0123456789'')"

definition digitVal :: "char \<Rightarrow> nat" where
  "digitVal c = of_char c - 48"

definition decimalValue :: "string \<Rightarrow> nat" where
  "decimalValue ds = foldl (\<lambda>n c. n * 10 + digitVal c) 0 ds"

text \<open>\<^verbatim>\<open>strconv.Atoi\<close>, that is \<^verbatim>\<open>ParseInt(s, 10, 0)\<close>: an optional sign and then decimal
  digits. A syntax error returns 0; a value out of range returns the largest magnitude of
  that sign, together with the range error.\<close>

definition Atoi :: "string \<Rightarrow> int \<times> numError option" where
  "Atoi s =
     (if s = [] then (0, Some ErrSyntax)
      else
        let neg = (hd s = CHR ''-'');
            ds = (if hd s = CHR ''+'' \<or> hd s = CHR ''-'' then tl s else s)
        in if ds = [] \<or> \<not> list_all isDigit ds then (0, Some ErrSyntax)
           else
             let un = int (decimalValue ds)
             in if \<not> neg \<and> un \<ge> 2 ^ 63 then (2 ^ 63 - 1, Some ErrRange)
                else if neg \<and> un > 2 ^ 63 then (- (2 ^ 63), Some ErrRange)
                else (if neg then - un else un, None))"

subsection \<open>Errors, outcomes, the request and the world\<close>

datatype goError =
    EOF
  | TooLargeContentLength int int
  | TooLargeWritten int int
  | FileExists string
  | OtherError string

text \<open>\<open>TooLargeContentLength clientLength uploadLimit\<close> and
  \<open>TooLargeWritten totalWritten uploadLimit\<close> are the two \<^verbatim>\<open>fmt.Errorf\<close> values of
  \<^verbatim>\<open>newUploadedFile\<close>, \<open>FileExists\<close> the one of \<^verbatim>\<open>write\<close>; \<open>OtherError m\<close> is an error
  made by a library call, with its message.\<close>

datatype 'a outcome = Panic string | Return 'a

text \<open>What \<^verbatim>\<open>req.FormFile\<close> hands back for a field that is present: the reader (the bytes
  it yields, and the error it reports in place of \<^verbatim>\<open>io.EOF\<close> once they are used up, if
  any) and the part's header and file name.\<close>

record formFile =
  content :: "byte list"
  readError :: "string option"
  partHeader :: "string \<rightharpoonup> string list"
  partFilename :: string

record request =
  contentLengthHeader :: string
  parseError :: "string option"
  formFiles :: "string \<rightharpoonup> formFile"

text \<open>\<open>contentLengthHeader\<close> is \<^verbatim>\<open>req.Header.Get("Content-Length")\<close>, the empty string when
  the header is absent; \<open>parseError\<close> is the error of \<^verbatim>\<open>req.ParseMultipartForm\<close>;
  \<open>formFiles\<close> maps a form ID to its file, \<open>None\<close> when \<^verbatim>\<open>req.FormFile\<close> fails.\<close>

record world =
  files :: "string \<rightharpoonup> byte list"
  openError :: "string \<rightharpoonup> string"
  writeFault :: "string \<rightharpoonup> nat \<times> string"
  logs :: "string list"

text \<open>\<open>files\<close> are the paths that exist (\<^verbatim>\<open>os.Stat\<close> succeeds) with their bytes;
  \<open>openError\<close> the paths at which \<^verbatim>\<open>os.OpenFile\<close> fails (missing directory, permission),
  with the message; \<open>writeFault w p = Some (k, m)\<close> says that a write to \<open>p\<close> of more
  than \<open>k\<close> bytes stores \<open>k\<close> of them and fails with the message \<open>m\<close> (disk full);
  \<open>logs\<close> are the lines given to \<^verbatim>\<open>log.Error\<close>.\<close>

definition logError :: "string \<Rightarrow> world \<Rightarrow> world" where
  "logError msg w = w\<lparr>logs := logs w @ [msg]\<rparr>"

record uploadedFile =
  req :: request
  scriptdir :: string
  header :: "string \<rightharpoonup> string list"
  filename :: string
  buf :: "byte list"

text \<open>\<open>buf\<close> is the unread content of the \<^verbatim>\<open>bytes.Buffer\<close>; \<^verbatim>\<open>buf.Len()\<close> is its length.\<close>

subsection \<open>The reader and io.CopyN\<close>

record reader =
  remaining :: "byte list"
  failure :: "string option"

definition openReader :: "formFile \<Rightarrow> reader" where
  "openReader ff = \<lparr>remaining = content ff, failure = readError ff\<rparr>"

text \<open>\<^verbatim>\<open>io.CopyN(buf, file, n)\<close> appends up to \<open>n\<close> bytes of the reader to the buffer. It
  returns the number of bytes copied, and no error exactly when that number is \<open>n\<close>;
  otherwise the reader's error, \<^verbatim>\<open>io.EOF\<close> when it simply ended.\<close>

definition CopyN :: "byte list \<Rightarrow> reader \<Rightarrow> int \<Rightarrow> int \<times> goError option \<times> byte list \<times> reader" where
  "CopyN b r n =
     (let k = min (nat n) (length (remaining r))
      in (int k,
          if int k = n then None
          else (case failure r of None \<Rightarrow> Some EOF | Some m \<Rightarrow> Some (OtherError m)),
          b @ take k (remaining r),
          r\<lparr>remaining := drop k (remaining r)\<rparr>))"

text \<open>\<^verbatim>\<open>buf.Truncate(n)\<close> keeps the first \<open>n\<close> unread bytes; it panics when \<open>n\<close> is negative
  or greater than the length.\<close>

definition Truncate :: "byte list \<Rightarrow> int \<Rightarrow> byte list option" where
  "Truncate b n = (if n < 0 \<or> n > int (length b) then None else Some (take (nat n) b))"

subsection \<open>newUploadedFile\<close>

text \<open>The loop of lines 355 to 370. The arguments are the variables it changes: \<open>i\<close>, the
  buffer, the reader and \<open>totalWritten\<close>. It ends with the error returned from inside the
  loop, or with the buffer and \<open>totalWritten\<close> as they are after the loop.\<close>

function copyLoop :: "int \<Rightarrow> int \<Rightarrow> byte list \<Rightarrow> reader \<Rightarrow> int \<Rightarrow> goError + (byte list \<times> int)" where
  "copyLoop uploadLimit i b file totalWritten =
     (if i < int (length b) then
        (let writtenBytes = fst (CopyN b file chunkSize);
             err = fst (snd (CopyN b file chunkSize));
             b' = fst (snd (snd (CopyN b file chunkSize)));
             file' = snd (snd (snd (CopyN b file chunkSize)));
             totalWritten' = totalWritten + writtenBytes
         in if totalWritten' > uploadLimit then Inl (TooLargeWritten totalWritten' uploadLimit)
            else if writtenBytes < chunkSize \<or> err = Some EOF then Inr (b', totalWritten')
            else if err \<noteq> None then Inl (the err)
            else copyLoop uploadLimit (i + chunkSize) b' file' totalWritten')
      else Inr (b, totalWritten))"
  by pat_completeness auto
termination
  by (relation "measure (\<lambda>(uploadLimit, i, b, file, totalWritten). length (remaining file))")
     (auto simp: CopyN_def Let_def chunkSize_def defaultMemoryLimit_def MiB_def)

declare copyLoop.simps [simp del]

text \<open>Lines 339 to 376: parsing the form, finding the file, the buffer and the loop.
  \<^verbatim>\<open>defer file.Close()\<close> stands before the check of \<^verbatim>\<open>err\<close>: when \<^verbatim>\<open>FormFile\<close> fails,
  \<^verbatim>\<open>file\<close> is the nil interface value and evaluating its method panics.
  \<^verbatim>\<open>bytes.NewBuffer(data)\<close> takes \<^verbatim>\<open>data\<close>, \<open>uploadLimit\<close> zero bytes, as the initial content
  of the buffer.\<close>

definition receiveFile :: "request \<Rightarrow> string \<Rightarrow> string \<Rightarrow> int \<Rightarrow> (goError + uploadedFile) outcome" where
  "receiveFile rq sdir formID uploadLimit =
     (case parseError rq of
        Some m \<Rightarrow> Return (Inl (OtherError m))
      | None \<Rightarrow>
         (case formFiles rq formID of
            None \<Rightarrow> Panic ''invalid memory address or nil pointer dereference''
          | Some ff \<Rightarrow>
              if uploadLimit < 0 then Panic ''makeslice: len out of range''
              else
                (case copyLoop uploadLimit 0 (replicate (nat uploadLimit) 0) (openReader ff) 0 of
                   Inl e \<Rightarrow> Return (Inl e)
                 | Inr (b, totalWritten) \<Rightarrow>
                     (case Truncate b totalWritten of
                        None \<Rightarrow> Panic ''bytes.Buffer: truncation out of range''
                      | Some b' \<Rightarrow>
                          Return (Inr \<lparr>req = rq, scriptdir = sdir, header = partHeader ff,
                                       filename = partFilename ff, buf = b'\<rparr>)))))"

text \<open>Lines 326 to 337, then the rest. The error of \<^verbatim>\<open>Atoi\<close> is logged and nothing else;
  the comparison uses whatever value \<^verbatim>\<open>Atoi\<close> returned.\<close>

definition newUploadedFile ::
  "request \<Rightarrow> string \<Rightarrow> string \<Rightarrow> int \<Rightarrow> world \<Rightarrow> (goError + uploadedFile) outcome \<times> world" where
  "newUploadedFile rq sdir formID uploadLimit w =
     (let clientLengthTotal = fst (Atoi (contentLengthHeader rq));
          err = snd (Atoi (contentLengthHeader rq));
          w' = (if err \<noteq> None
                then logError (''Invalid Content-Length: '' @ contentLengthHeader rq) w
                else w);
          clientLength = int64 (clientLengthTotal - 20)
      in if clientLength > uploadLimit
         then (Return (Inl (TooLargeContentLength clientLength uploadLimit)), w')
         else (receiveFile rq sdir formID uploadLimit, w'))"

subsection \<open>Error messages\<close>

definition digitChar :: "nat \<Rightarrow> char" where
  "digitChar d = ''0123456789'' ! d"

fun showNat :: "nat \<Rightarrow> string" where
  "showNat n = (if n < 10 then [digitChar n] else showNat (n div 10) @ [digitChar (n mod 10)])"

declare showNat.simps [simp del]

text \<open>The verb \<^verbatim>\<open>%d\<close> of \<^verbatim>\<open>fmt\<close>.\<close>

definition showInt :: "int \<Rightarrow> string" where
  "showInt x = (if x < 0 then CHR ''-'' # showNat (nat (- x)) else showNat (nat x))"

text \<open>\<^verbatim>\<open>err.Error()\<close>. The helper \<^verbatim>\<open>describeBytes\<close> is not in the source file and is a
  parameter. The message of \<open>FileExists\<close> is the one \<^verbatim>\<open>fmt.Errorf\<close> makes of a file name
  without a percent sign.\<close>

definition errorString :: "(int \<Rightarrow> string) \<Rightarrow> goError \<Rightarrow> string" where
  "errorString describeBytes e =
     (case e of
        EOF \<Rightarrow> ''EOF''
      | TooLargeContentLength clientLength uploadLimit \<Rightarrow>
          ''Uploaded file was too large: '' @ describeBytes clientLength
            @ '' according to Content-Length (current limit is '' @ describeBytes uploadLimit @ '')''
      | TooLargeWritten totalWritten uploadLimit \<Rightarrow>
          ''Uploaded file was too large: '' @ showInt totalWritten
            @ '' bytes (limit is '' @ showInt uploadLimit @ '' bytes)''
      | FileExists fullFilename \<Rightarrow> ''File exists: '' @ fullFilename
      | OtherError m \<Rightarrow> m)"

subsection \<open>The Lua constructor of exportUploadedFile\<close>

datatype luaResult =
    LuaError string
  | GoPanic string
  | Results "uploadedFile option" string

text \<open>\<^verbatim>\<open>constructUploadedFile\<close> wraps the result of \<^verbatim>\<open>newUploadedFile\<close> in a userdata value
  and passes an error on; the wrapping is left out.\<close>

definition constructUploadedFile ::
  "request \<Rightarrow> string \<Rightarrow> string \<Rightarrow> int \<Rightarrow> world \<Rightarrow> (goError + uploadedFile) outcome \<times> world" where
  "constructUploadedFile rq sdir formID uploadLimit w = newUploadedFile rq sdir formID uploadLimit w"

text \<open>The function bound to the global \<^verbatim>\<open>UploadedFile\<close>. \<open>limitArg\<close> is \<^verbatim>\<open>L.ToInt(2)\<close> when
  two arguments are given and \<open>None\<close> otherwise. \<^verbatim>\<open>L.ArgError\<close> raises a Lua error.\<close>

definition UploadedFile ::
  "(int \<Rightarrow> string) \<Rightarrow> request \<Rightarrow> string \<Rightarrow> string \<Rightarrow> int option \<Rightarrow> world \<Rightarrow> luaResult \<times> world" where
  "UploadedFile describeBytes rq sdir formID limitArg w =
     (if formID = '''' then (LuaError ''form ID expected'', w)
      else
        let uploadLimit = (case limitArg of None \<Rightarrow> defaultUploadLimit | Some n \<Rightarrow> int64 (n * MiB))
        in case constructUploadedFile rq sdir formID uploadLimit w of
             (Panic m, w') \<Rightarrow> (GoPanic m, w')
           | (Return (Inl err), w') \<Rightarrow>
               (Results None (errorString describeBytes err),
                logError (errorString describeBytes err) w')
           | (Return (Inr ulf), w') \<Rightarrow> (Results (Some ulf) '''', w'))"

subsection \<open>filepath.IsAbs and filepath.Join (Unix)\<close>

definition IsAbs :: "string \<Rightarrow> bool" where
  "IsAbs p = (p \<noteq> [] \<and> hd p = CHR ''/'')"

fun splitSlash :: "string \<Rightarrow> string list" where
  "splitSlash [] = [[]]"
| "splitSlash (c # cs) =
     (if c = CHR ''/'' then [] # splitSlash cs
      else (case splitSlash cs of [] \<Rightarrow> [[c]] | e # es \<Rightarrow> (c # e) # es))"

fun joinSlash :: "string list \<Rightarrow> string" where
  "joinSlash [] = []"
| "joinSlash [e] = e"
| "joinSlash (e # es) = e @ ''/'' @ joinSlash es"

text \<open>The elements of a cleaned path. \<open>out\<close> holds the elements kept so far, the last one
  first. Empty elements and \<^verbatim>\<open>.\<close> are dropped; \<^verbatim>\<open>..\<close> removes the element before it,
  is dropped at the root, and is kept at the start of a path that is not rooted.\<close>

fun cleanElems :: "bool \<Rightarrow> string list \<Rightarrow> string list \<Rightarrow> string list" where
  "cleanElems rooted out [] = rev out"
| "cleanElems rooted out (e # es) =
     (if e = '''' \<or> e = ''.'' then cleanElems rooted out es
      else if e = ''..'' then
        (case out of
           [] \<Rightarrow> if rooted then cleanElems rooted [] es else cleanElems rooted [''..''] es
         | t # ts \<Rightarrow> if t = ''..'' then cleanElems rooted (''..'' # out) es
                     else cleanElems rooted ts es)
      else cleanElems rooted (e # out) es)"

definition Clean :: "string \<Rightarrow> string" where
  "Clean p =
     (if p = '''' then ''.''
      else
        let rooted = (hd p = CHR ''/'');
            body = joinSlash (cleanElems rooted [] (splitSlash p))
        in if rooted then CHR ''/'' # body
           else if body = '''' then ''.'' else body)"

text \<open>\<^verbatim>\<open>filepath.Join\<close>: leading empty elements are skipped, the rest is joined with the
  separator and cleaned; with no element left the result is empty.\<close>

definition Join :: "string list \<Rightarrow> string" where
  "Join elem =
     (case dropWhile (\<lambda>e. e = '''') elem of
        [] \<Rightarrow> ''''
      | e # es \<Rightarrow> Clean (joinSlash (e # es)))"

subsection \<open>The methods size, save and savein\<close>

definition uploadedfileSize :: "uploadedFile \<Rightarrow> int" where
  "uploadedfileSize ulf = int (length (buf ulf))"

text \<open>\<^verbatim>\<open>UploadedFile.write\<close>. \<^verbatim>\<open>io.Copy(f, ulf.buf)\<close> is \<^verbatim>\<open>ulf.buf.WriteTo(f)\<close>: one write of
  the whole unread content, none when the buffer is empty; the buffer moves past what was
  written and is reset when all of it was.\<close>

definition UploadedFile_write :: "uploadedFile \<Rightarrow> string \<Rightarrow> world \<Rightarrow> goError option \<times> uploadedFile \<times> world" where
  "UploadedFile_write ulf fullFilename w =
     (if files w fullFilename \<noteq> None then
        (Some (FileExists fullFilename), ulf, logError (fullFilename @ '' already exists'') w)
      else
        (case openError w fullFilename of
           Some m \<Rightarrow>
             (Some (OtherError m), ulf, logError (''Error when creating '' @ fullFilename) w)
         | None \<Rightarrow>
             (case writeFault w fullFilename of
                Some (k, m) \<Rightarrow>
                  if k < length (buf ulf) then
                    (Some (OtherError m),
                     ulf\<lparr>buf := drop k (buf ulf)\<rparr>,
                     logError (''Error when writing: '' @ m)
                       (w\<lparr>files := (files w)(fullFilename \<mapsto> take k (buf ulf))\<rparr>))
                  else
                    (None, ulf\<lparr>buf := []\<rparr>, w\<lparr>files := (files w)(fullFilename \<mapsto> buf ulf)\<rparr>)
              | None \<Rightarrow>
                  (None, ulf\<lparr>buf := []\<rparr>, w\<lparr>files := (files w)(fullFilename \<mapsto> buf ulf)\<rparr>))))"

text \<open>The path \<^verbatim>\<open>uploadedfileSave\<close> writes to. \<open>arg\<close> is \<^verbatim>\<open>L.ToString(2)\<close> when the call has
  two arguments, \<open>None\<close> otherwise.\<close>

definition savePath :: "uploadedFile \<Rightarrow> string option \<Rightarrow> string" where
  "savePath ulf arg =
     (let givenFilename = (case arg of None \<Rightarrow> '''' | Some s \<Rightarrow> s);
          fname = (if givenFilename \<noteq> '''' then givenFilename else filename ulf)
      in Join [scriptdir ulf, fname])"

definition uploadedfileSave :: "uploadedFile \<Rightarrow> string option \<Rightarrow> world \<Rightarrow> bool \<times> uploadedFile \<times> world" where
  "uploadedfileSave ulf arg w =
     (case UploadedFile_write ulf (savePath ulf arg) w of (err, ulf', w') \<Rightarrow> (err = None, ulf', w'))"

text \<open>The path \<^verbatim>\<open>uploadedfileSaveIn\<close> writes to.\<close>

definition saveInPath :: "uploadedFile \<Rightarrow> string \<Rightarrow> string" where
  "saveInPath ulf givenDirectory =
     (if IsAbs givenDirectory then Join [givenDirectory, filename ulf]
      else Join [scriptdir ulf, givenDirectory, filename ulf])"

definition uploadedfileSaveIn :: "uploadedFile \<Rightarrow> string \<Rightarrow> world \<Rightarrow> bool \<times> uploadedFile \<times> world" where
  "uploadedfileSaveIn ulf givenDirectory w =
     (case UploadedFile_write ulf (saveInPath ulf givenDirectory) w of (err, ulf', w') \<Rightarrow> (err = None, ulf', w'))"

subsection \<open>Classifying errors, and the inputs used as instances\<close>


definition emptyWorld :: world where
  "emptyWorld = \<lparr>files = Map.empty, openError = Map.empty, writeFault = Map.empty, logs = []\<rparr>"

text \<open>A file of three bytes in the field \<^verbatim>\<open>file\<close>, sent without a Content-Length header.\<close>

definition exampleFile :: formFile where
  "exampleFile = \<lparr>content = [1, 2, 3], readError = None, partHeader = Map.empty,
                   partFilename = ''a.txt''\<rparr>"

definition exampleRequest :: request where
  "exampleRequest = \<lparr>contentLengthHeader = '''', parseError = None,
                      formFiles = [''file'' \<mapsto> exampleFile]\<rparr>"

text \<open>What \<^verbatim>\<open>newUploadedFile\<close> returns for \<open>exampleRequest\<close> with a limit of four bytes.\<close>

definition exampleUpload :: uploadedFile where
  "exampleUpload = \<lparr>req = exampleRequest, scriptdir = ''/srv'', header = partHeader exampleFile,
                     filename = ''a.txt'', buf = [0, 0, 0]\<rparr>"

text \<open>A reader that yields two bytes and then fails.\<close>

definition brokenFile :: formFile where
  "brokenFile = \<lparr>content = [1, 2], readError = Some ''unexpected EOF'', partHeader = Map.empty,
                  partFilename = ''b.txt''\<rparr>"

definition brokenRequest :: request where
  "brokenRequest = \<lparr>contentLengthHeader = '''', parseError = None,
                     formFiles = [''file'' \<mapsto> brokenFile]\<rparr>"

text \<open>A form that parses and has no file at all.\<close>

definition noFileRequest :: request where
  "noFileRequest = \<lparr>contentLengthHeader = ''215'', parseError = None, formFiles = Map.empty\<rparr>"





text \<open>A world in which the file \<^verbatim>\<open>/srv/a.txt\<close> does not exist and cannot be created.\<close>

definition deniedWorld :: world where
  "deniedWorld = emptyWorld\<lparr>openError := [''/srv/a.txt'' \<mapsto> ''permission denied'']\<rparr>"

section \<open>Facts about the model\<close>

subsection \<open>Atoi and the conversion to 64 bits\<close>

lemma Atoi_empty: "Atoi '''' = (0, Some ErrSyntax)"
  by (simp add: Atoi_def)





lemma Atoi_215: "Atoi ''215'' = (215, None)"
  by (simp add: Atoi_def isDigit_def decimalValue_def digitVal_def)

lemma int64_m20: "int64 (- 20) = - 20"
  by (simp add: int64_def)

subsection \<open>The loop\<close>

lemma chunkSize_pos: "0 < chunkSize"
  by (simp add: chunkSize_def defaultMemoryLimit_def MiB_def)

lemma CopyN_short:
  "int (length (remaining r)) < n \<Longrightarrow>
   CopyN b r n = (int (length (remaining r)),
                  (case failure r of None \<Rightarrow> Some EOF | Some m \<Rightarrow> Some (OtherError m)),
                  b @ remaining r, r\<lparr>remaining := []\<rparr>)"
  by (auto simp: CopyN_def Let_def min_def)

lemma CopyN_full:
  "0 \<le> n \<Longrightarrow> n \<le> int (length (remaining r)) \<Longrightarrow>
   CopyN b r n = (n, None, b @ take (nat n) (remaining r),
                  r\<lparr>remaining := drop (nat n) (remaining r)\<rparr>)"
  by (auto simp: CopyN_def Let_def min_def)

text \<open>With an empty buffer at the start the loop body never runs.\<close>

lemma copyLoop_skip:
  "\<not> i < int (length b) \<Longrightarrow> copyLoop uploadLimit i b rd totalWritten = Inr (b, totalWritten)"
  by (simp add: copyLoop.simps)

text \<open>When what is left of the reader fits under the limit, the loop appends all of it to
  the buffer and ends without an error, whatever the reader reports at its end.\<close>

lemma copyLoop_fits:
  "i < int (length b) \<Longrightarrow> totalWritten + int (length (remaining rd)) \<le> uploadLimit \<Longrightarrow>
   copyLoop uploadLimit i b rd totalWritten =
     Inr (b @ remaining rd, totalWritten + int (length (remaining rd)))"
proof (induction "length (remaining rd)" arbitrary: i b rd totalWritten rule: less_induct)
  case less
  show ?case
  proof (cases "int (length (remaining rd)) < chunkSize")
    case True
    with less.prems show ?thesis
      by (subst copyLoop.simps) (simp add: CopyN_short Let_def)
  next
    case False
    let ?c = "nat chunkSize"
    let ?b = "b @ take ?c (remaining rd)"
    let ?f = "rd\<lparr>remaining := drop ?c (remaining rd)\<rparr>"
    from False have full: "chunkSize \<le> int (length (remaining rd))" by simp
    have cn: "CopyN b rd chunkSize = (chunkSize, None, ?b, ?f)"
      using CopyN_full [OF less_imp_le [OF chunkSize_pos] full] .
    have smaller: "length (remaining ?f) < length (remaining rd)"
      using full chunkSize_pos by simp
    have len: "int (length (remaining ?f)) = int (length (remaining rd)) - chunkSize"
      using full chunkSize_pos by simp
    have guard: "i + chunkSize < int (length ?b)"
      using less.prems(1) full chunkSize_pos by simp
    have fit: "totalWritten + chunkSize + int (length (remaining ?f)) \<le> uploadLimit"
      using less.prems(2) len by simp
    have rec: "copyLoop uploadLimit (i + chunkSize) ?b ?f (totalWritten + chunkSize) =
                 Inr (?b @ remaining ?f, totalWritten + chunkSize + int (length (remaining ?f)))"
      using less.hyps [OF smaller guard fit] .
    have le: "\<not> totalWritten + chunkSize > uploadLimit"
      using fit by simp
    show ?thesis
      using less.prems(1) le len
      by (subst copyLoop.simps) (simp add: cn rec Let_def)
  qed
qed

text \<open>When the reader holds more than the limit allows, the loop ends with the error of
  line 361.\<close>

lemma copyLoop_too_large:
  "i < int (length b) \<Longrightarrow> uploadLimit < totalWritten + int (length (remaining rd)) \<Longrightarrow>
   \<exists>tw. uploadLimit < tw \<and>
        copyLoop uploadLimit i b rd totalWritten = Inl (TooLargeWritten tw uploadLimit)"
proof (induction "length (remaining rd)" arbitrary: i b rd totalWritten rule: less_induct)
  case less
  show ?case
  proof (cases "int (length (remaining rd)) < chunkSize")
    case True
    with less.prems show ?thesis
      by (subst copyLoop.simps) (simp add: CopyN_short Let_def)
  next
    case False
    let ?c = "nat chunkSize"
    let ?b = "b @ take ?c (remaining rd)"
    let ?f = "rd\<lparr>remaining := drop ?c (remaining rd)\<rparr>"
    from False have full: "chunkSize \<le> int (length (remaining rd))" by simp
    have cn: "CopyN b rd chunkSize = (chunkSize, None, ?b, ?f)"
      using CopyN_full [OF less_imp_le [OF chunkSize_pos] full] .
    show ?thesis
    proof (cases "uploadLimit < totalWritten + chunkSize")
      case True
      with less.prems(1) show ?thesis
        by (subst copyLoop.simps) (simp add: cn Let_def)
    next
      case False
      have smaller: "length (remaining ?f) < length (remaining rd)"
        using full chunkSize_pos by simp
      have len: "int (length (remaining ?f)) = int (length (remaining rd)) - chunkSize"
        using full chunkSize_pos by simp
      have guard: "i + chunkSize < int (length ?b)"
        using less.prems(1) full chunkSize_pos by simp
      have over: "uploadLimit < totalWritten + chunkSize + int (length (remaining ?f))"
        using less.prems(2) len by simp
      from less.hyps [OF smaller guard over] obtain tw where
        tw: "uploadLimit < tw"
            "copyLoop uploadLimit (i + chunkSize) ?b ?f (totalWritten + chunkSize) =
               Inl (TooLargeWritten tw uploadLimit)"
        by blast
      have "copyLoop uploadLimit i b rd totalWritten = Inl (TooLargeWritten tw uploadLimit)"
        using less.prems(1) False
        by (subst copyLoop.simps) (simp add: cn tw(2) Let_def)
      with tw(1) show ?thesis by blast
    qed
  qed
qed

text \<open>The branch of line 366 is never taken: the loop returns no error of the reader.\<close>

lemma copyLoop_no_read_error:
  "copyLoop uploadLimit i b rd totalWritten \<noteq> Inl (OtherError m)"
proof (cases "i < int (length b)")
  case False
  then show ?thesis by (simp add: copyLoop_skip)
next
  case True
  show ?thesis
  proof (cases "totalWritten + int (length (remaining rd)) \<le> uploadLimit")
    case True
    with \<open>i < int (length b)\<close> show ?thesis by (simp add: copyLoop_fits)
  next
    case False
    then have "uploadLimit < totalWritten + int (length (remaining rd))" by simp
    from copyLoop_too_large [OF \<open>i < int (length b)\<close> this] show ?thesis by auto
  qed
qed

subsection \<open>The constructor\<close>

lemma Truncate_zeros:
  "n \<le> k \<Longrightarrow> Truncate (replicate k 0 @ d) (int n) = Some (replicate n 0)"
  by (simp add: Truncate_def min_def)

text \<open>A file within a positive limit: the buffer that is kept has the length of the file
  and holds zero bytes only, the first bytes of the initial content.\<close>

lemma receiveFile_fits:
  assumes "0 < uploadLimit" and "parseError rq = None" and "formFiles rq formID = Some ff"
    and "int (length (content ff)) \<le> uploadLimit"
  shows "receiveFile rq sdir formID uploadLimit =
           Return (Inr \<lparr>req = rq, scriptdir = sdir, header = partHeader ff,
                        filename = partFilename ff,
                        buf = replicate (length (content ff)) 0\<rparr>)"
proof -
  let ?z = "replicate (nat uploadLimit) (0::byte)"
  have guard: "0 < int (length ?z)" using assms(1) by simp
  have fit: "0 + int (length (remaining (openReader ff))) \<le> uploadLimit"
    using assms(4) by (simp add: openReader_def)
  have loop: "copyLoop uploadLimit 0 ?z (openReader ff) 0 =
                Inr (?z @ content ff, int (length (content ff)))"
    using copyLoop_fits [OF guard fit] by (simp add: openReader_def)
  have le: "length (content ff) \<le> nat uploadLimit" using assms(4) by simp
  show ?thesis
    using assms(1-3) by (simp add: receiveFile_def loop Truncate_zeros [OF le])
qed

lemma receiveFile_too_large:
  assumes "0 < uploadLimit" and "parseError rq = None" and "formFiles rq formID = Some ff"
    and "uploadLimit < int (length (content ff))"
  shows "\<exists>tw. uploadLimit < tw \<and>
           receiveFile rq sdir formID uploadLimit = Return (Inl (TooLargeWritten tw uploadLimit))"
proof -
  let ?z = "replicate (nat uploadLimit) (0::byte)"
  have guard: "0 < int (length ?z)" using assms(1) by simp
  have over: "uploadLimit < 0 + int (length (remaining (openReader ff)))"
    using assms(4) by (simp add: openReader_def)
  from copyLoop_too_large [OF guard over] obtain tw where
    tw: "uploadLimit < tw"
        "copyLoop uploadLimit 0 ?z (openReader ff) 0 = Inl (TooLargeWritten tw uploadLimit)"
    by blast
  have "receiveFile rq sdir formID uploadLimit = Return (Inl (TooLargeWritten tw uploadLimit))"
    using assms(1-3) by (simp add: receiveFile_def tw(2))
  with tw(1) show ?thesis by blast
qed

lemma receiveFile_zero_limit:
  assumes "parseError rq = None" and "formFiles rq formID = Some ff"
  shows "receiveFile rq sdir formID 0 =
           Return (Inr \<lparr>req = rq, scriptdir = sdir, header = partHeader ff,
                        filename = partFilename ff, buf = []\<rparr>)"
  using assms by (simp add: receiveFile_def copyLoop_skip Truncate_def)

lemma receiveFile_missing:
  "parseError rq = None \<Longrightarrow> formFiles rq formID = None \<Longrightarrow>
   receiveFile rq sdir formID uploadLimit =
     Panic ''invalid memory address or nil pointer dereference''"
  by (simp add: receiveFile_def)

lemma receiveFile_negative:
  "parseError rq = None \<Longrightarrow> formFiles rq formID = Some ff \<Longrightarrow> uploadLimit < 0 \<Longrightarrow>
   receiveFile rq sdir formID uploadLimit = Panic ''makeslice: len out of range''"
  by (simp add: receiveFile_def)

lemma newUploadedFile_passed:
  "int64 (fst (Atoi (contentLengthHeader rq)) - 20) \<le> uploadLimit \<Longrightarrow>
   fst (newUploadedFile rq sdir formID uploadLimit w) = receiveFile rq sdir formID uploadLimit"
  by (simp add: newUploadedFile_def Let_def)

lemma newUploadedFile_rejected:
  "uploadLimit < int64 (fst (Atoi (contentLengthHeader rq)) - 20) \<Longrightarrow>
   fst (newUploadedFile rq sdir formID uploadLimit w) =
     Return (Inl (TooLargeContentLength
                    (int64 (fst (Atoi (contentLengthHeader rq)) - 20)) uploadLimit))"
  by (simp add: newUploadedFile_def Let_def)

text \<open>A failure of \<^verbatim>\<open>ParseMultipartForm\<close>, such as a connection that ends while the body is
  read, is returned as it is.\<close>

lemma newUploadedFile_parse_error:
  "int64 (fst (Atoi (contentLengthHeader rq)) - 20) \<le> uploadLimit \<Longrightarrow>
   parseError rq = Some m \<Longrightarrow>
   fst (newUploadedFile rq sdir formID uploadLimit w) = Return (Inl (OtherError m))"
  by (simp add: newUploadedFile_passed receiveFile_def)


text \<open>The buffer of an upload that was constructed is no longer than the limit.\<close>

lemma newUploadedFile_size_within_limit:
  assumes "fst (newUploadedFile rq sdir formID uploadLimit w) = Return (Inr ulf)"
  shows "uploadedfileSize ulf \<le> uploadLimit"
proof -
  have pass: "int64 (fst (Atoi (contentLengthHeader rq)) - 20) \<le> uploadLimit"
  proof (rule ccontr)
    assume "\<not> int64 (fst (Atoi (contentLengthHeader rq)) - 20) \<le> uploadLimit"
    then have "uploadLimit < int64 (fst (Atoi (contentLengthHeader rq)) - 20)" by simp
    from newUploadedFile_rejected [OF this, of sdir formID w] assms show False by simp
  qed
  then have r: "receiveFile rq sdir formID uploadLimit = Return (Inr ulf)"
    using assms by (simp add: newUploadedFile_passed)
  then have p: "parseError rq = None"
    by (cases "parseError rq") (simp_all add: receiveFile_def)
  from r p obtain ff where ff: "formFiles rq formID = Some ff"
    by (cases "formFiles rq formID") (simp_all add: receiveFile_def)
  have nonneg: "0 \<le> uploadLimit"
  proof (rule ccontr)
    assume "\<not> 0 \<le> uploadLimit"
    then have "uploadLimit < 0" by simp
    from receiveFile_negative [OF p ff this, of sdir] r show False by simp
  qed
  show ?thesis
  proof (cases "uploadLimit = 0")
    case True
    with r receiveFile_zero_limit [OF p ff, of sdir] show ?thesis
      by (auto simp: uploadedfileSize_def)
  next
    case False
    with nonneg have pos: "0 < uploadLimit" by simp
    show ?thesis
    proof (cases "int (length (content ff)) \<le> uploadLimit")
      case True
      from r receiveFile_fits [OF pos p ff True, of sdir] True show ?thesis
        by (auto simp: uploadedfileSize_def)
    next
      case False
      then have "uploadLimit < int (length (content ff))" by simp
      from receiveFile_too_large [OF pos p ff this, of sdir] r show ?thesis by auto
    qed
  qed
qed

subsection \<open>The Lua constructor\<close>



lemma UploadedFile_panic:
  assumes "formID \<noteq> ''''"
    and "fst (newUploadedFile rq sdir formID
               (case limitArg of None \<Rightarrow> defaultUploadLimit | Some n \<Rightarrow> int64 (n * MiB)) w) =
         Panic m"
  shows "fst (UploadedFile describeBytes rq sdir formID limitArg w) = GoPanic m"
  using assms
  by (cases "newUploadedFile rq sdir formID
               (case limitArg of None \<Rightarrow> defaultUploadLimit | Some n \<Rightarrow> int64 (n * MiB)) w")
     (simp add: UploadedFile_def constructUploadedFile_def Let_def)

subsection \<open>Writing\<close>

lemma savePath_buf: "savePath (ulf\<lparr>buf := b\<rparr>) arg = savePath ulf arg"
  by (simp add: savePath_def Let_def)

lemma savePath_example: "savePath exampleUpload None = ''/srv/a.txt''"
  by (simp add: savePath_def exampleUpload_def Join_def Clean_def)

lemma write_exists:
  "files w p \<noteq> None \<Longrightarrow>
   UploadedFile_write ulf p w = (Some (FileExists p), ulf, logError (p @ '' already exists'') w)"
  by (simp add: UploadedFile_write_def)

lemma write_stores:
  assumes "files w p = None" and "openError w p = None"
    and "\<forall>k m. writeFault w p = Some (k, m) \<longrightarrow> length (buf ulf) \<le> k"
  shows "UploadedFile_write ulf p w =
           (None, ulf\<lparr>buf := []\<rparr>, w\<lparr>files := (files w)(p \<mapsto> buf ulf)\<rparr>)"
  using assms by (auto simp: UploadedFile_write_def split: option.splits)


section \<open>The claims\<close>

text \<open>
  Claim C1. For a request whose file is no longer than the limit, construction succeeds,
  the size is the number of bytes transferred, and the buffer, and so what a later save
  writes, equals the content sent.

  The code does not keep the content. For the file \<open>[1, 2, 3]\<close> and a limit of four bytes
  the constructor succeeds and the size is 3, but the buffer is \<open>[0, 0, 0]\<close>, and a save
  writes these three zero bytes to \<^verbatim>\<open>/srv/a.txt\<close>. (\<open>receiveFile_fits\<close> shows the same for
  every file within a positive limit.)
\<close>

theorem uploaded_content_is_replaced_by_zeros:
  "content exampleFile = [1, 2, 3]
   \<and> fst (newUploadedFile exampleRequest ''/srv'' ''file'' 4 emptyWorld) = Return (Inr exampleUpload)
   \<and> uploadedfileSize exampleUpload = 3
   \<and> buf exampleUpload = [0, 0, 0]
   \<and> files (snd (snd (uploadedfileSave exampleUpload None emptyWorld))) ''/srv/a.txt'' =
       Some [0, 0, 0]"
proof -
  have "fst (newUploadedFile exampleRequest ''/srv'' ''file'' 4 emptyWorld) =
          receiveFile exampleRequest ''/srv'' ''file'' 4"
    by (rule newUploadedFile_passed) (simp add: exampleRequest_def Atoi_empty int64_m20)
  moreover have "receiveFile exampleRequest ''/srv'' ''file'' 4 =
      Return (Inr \<lparr>req = exampleRequest, scriptdir = ''/srv'', header = partHeader exampleFile,
                   filename = partFilename exampleFile,
                   buf = replicate (length (content exampleFile)) 0\<rparr>)"
    by (rule receiveFile_fits) (simp_all add: exampleRequest_def exampleFile_def)
  moreover have "replicate (length (content exampleFile)) (0::byte) = [0, 0, 0]"
    by (simp add: exampleFile_def numeral_3_eq_3)
  ultimately have built:
    "fst (newUploadedFile exampleRequest ''/srv'' ''file'' 4 emptyWorld) = Return (Inr exampleUpload)"
    by (simp add: exampleUpload_def exampleFile_def)
  have saved: "files (snd (snd (uploadedfileSave exampleUpload None emptyWorld))) ''/srv/a.txt'' =
       Some [0, 0, 0]"
    by (simp add: uploadedfileSave_def savePath_example UploadedFile_write_def emptyWorld_def)
       (simp add: exampleUpload_def)
  show ?thesis
    using built saved by (simp add: exampleFile_def exampleUpload_def uploadedfileSize_def)
qed




text \<open>
  Claim C3. When the reader reports an error in the middle of the stream while the total
  is within the limit, construction aborts with that error, as nil and a message, and no
  partial file is written.

  The code does not abort. \<^verbatim>\<open>io.CopyN\<close> reports the reader's error together with fewer
  bytes than a chunk, and the test \<^verbatim>\<open>writtenBytes < chunkSize\<close> of line 363 comes first:
  the loop is left as if the file had ended. For a reader that fails after two bytes the
  constructor returns an upload of two bytes. (\<open>copyLoop_no_read_error\<close> shows that the
  loop returns no error of the reader at all.)
\<close>

theorem read_error_is_taken_for_the_end:
  "fst (snd (CopyN (replicate 10 0) (openReader brokenFile) chunkSize)) =
     Some (OtherError ''unexpected EOF'')
   \<and> fst (newUploadedFile brokenRequest ''/srv'' ''file'' 10 emptyWorld) =
       Return (Inr \<lparr>req = brokenRequest, scriptdir = ''/srv'', header = partHeader brokenFile,
                    filename = ''b.txt'', buf = [0, 0]\<rparr>)"
proof -
  have "fst (newUploadedFile brokenRequest ''/srv'' ''file'' 10 emptyWorld) =
          receiveFile brokenRequest ''/srv'' ''file'' 10"
    by (rule newUploadedFile_passed) (simp add: brokenRequest_def Atoi_empty int64_m20)
  moreover have "receiveFile brokenRequest ''/srv'' ''file'' 10 =
      Return (Inr \<lparr>req = brokenRequest, scriptdir = ''/srv'', header = partHeader brokenFile,
                   filename = partFilename brokenFile,
                   buf = replicate (length (content brokenFile)) 0\<rparr>)"
    by (rule receiveFile_fits) (simp_all add: brokenRequest_def brokenFile_def)
  moreover have "replicate (length (content brokenFile)) (0::byte) = [0, 0]"
    by (simp add: brokenFile_def numeral_2_eq_2)
  moreover have "fst (snd (CopyN (replicate 10 0) (openReader brokenFile) chunkSize)) =
     Some (OtherError ''unexpected EOF'')"
    by (simp add: CopyN_def openReader_def brokenFile_def chunkSize_def defaultMemoryLimit_def
        MiB_def Let_def)
  ultimately show ?thesis
    by (simp add: brokenFile_def)
qed

text \<open>
  Claim C4. When the named field is absent from the form, construction fails by
  returning nil and a message; this path never panics.

  The code panics. \<^verbatim>\<open>defer file.Close()\<close> of line 344 stands before the check of \<^verbatim>\<open>err\<close>
  of line 345; for an absent field \<^verbatim>\<open>file\<close> is nil, so the call of the Lua constructor
  ends in a Go panic and returns nothing.
\<close>

theorem missing_field_panics:
  "formFiles noFileRequest ''file'' = None
   \<and> fst (UploadedFile showInt noFileRequest ''/srv'' ''file'' None emptyWorld) =
       GoPanic ''invalid memory address or nil pointer dereference''"
proof -
  have "fst (newUploadedFile noFileRequest ''/srv'' ''file'' defaultUploadLimit emptyWorld) =
          receiveFile noFileRequest ''/srv'' ''file'' defaultUploadLimit"
    by (rule newUploadedFile_passed)
       (simp add: noFileRequest_def Atoi_215 int64_def defaultUploadLimit_def MiB_def)
  moreover have "receiveFile noFileRequest ''/srv'' ''file'' defaultUploadLimit =
      Panic ''invalid memory address or nil pointer dereference''"
    by (rule receiveFile_missing) (simp_all add: noFileRequest_def)
  ultimately have "fst (newUploadedFile noFileRequest ''/srv'' ''file''
      (case None of None \<Rightarrow> defaultUploadLimit | Some n \<Rightarrow> int64 (n * MiB)) emptyWorld) =
      Panic ''invalid memory address or nil pointer dereference''"
    by simp
  from UploadedFile_panic [OF _ this] show ?thesis
    by (simp add: noFileRequest_def)
qed

text \<open>
  Claim C5. After construction the length of the buffer is the actual length and at most
  the limit, and at no point during or after construction does the buffer grow beyond the
  limit.

  The bound after construction holds (\<open>newUploadedFile_size_within_limit\<close>). During
  construction the buffer does grow beyond the limit: it starts with as many zero bytes
  as the limit allows and the file is appended to them. For the file \<open>[1, 2, 3]\<close> and a
  limit of four bytes the buffer handed to \<^verbatim>\<open>Truncate\<close> has seven bytes.
\<close>

theorem buffer_grows_beyond_limit:
  "copyLoop 4 0 (replicate 4 0) (openReader exampleFile) 0 = Inr ([0, 0, 0, 0, 1, 2, 3], 3)
   \<and> 4 < int (length [0, 0, 0, 0, 1, 2, 3 :: byte])"
proof -
  have "copyLoop 4 0 (replicate 4 0) (openReader exampleFile) 0 =
          Inr (replicate 4 0 @ remaining (openReader exampleFile),
               0 + int (length (remaining (openReader exampleFile))))"
    by (rule copyLoop_fits) (simp_all add: openReader_def exampleFile_def)
  moreover have "replicate 4 (0::byte) = [0, 0, 0, 0]"
    by (simp add: numeral_eq_Suc)
  ultimately show ?thesis
    by (simp add: openReader_def exampleFile_def)
qed

text \<open>
  Claim C6. For every destination path, the first save on a path that does not exist
  returns true and creates the file; a save to the same path right after it returns
  false, writes nothing and leaves the file as it is.

  The first part fails where the file cannot be created: \<^verbatim>\<open>os.OpenFile\<close> fails, \<^verbatim>\<open>write\<close>
  returns its error (line 450) and save returns false.
\<close>

theorem save_fails_where_create_fails:
  "files deniedWorld (savePath exampleUpload None) = None
   \<and> fst (uploadedfileSave exampleUpload None deniedWorld) = False"
  by (simp add: savePath_example uploadedfileSave_def UploadedFile_write_def deniedWorld_def
      emptyWorld_def)

text \<open>
  Claim C6, amended. For a destination that does not exist, can be created and can take
  the whole buffer, the first save returns true and the file holds the buffer's bytes; a
  save to the same path right after it returns false, changes no file and leaves the
  upload as it is.
\<close>

theorem save_twice_to_same_path:
  assumes "files w (savePath ulf arg) = None" and "openError w (savePath ulf arg) = None"
    and "\<forall>k m. writeFault w (savePath ulf arg) = Some (k, m) \<longrightarrow> length (buf ulf) \<le> k"
    and "uploadedfileSave ulf arg w = (ok1, ulf1, w1)"
    and "uploadedfileSave ulf1 arg w1 = (ok2, ulf2, w2)"
  shows "ok1 \<and> files w1 (savePath ulf arg) = Some (buf ulf)
         \<and> \<not> ok2 \<and> files w2 = files w1 \<and> ulf2 = ulf1"
proof -
  let ?p = "savePath ulf arg"
  have first: "ok1" "ulf1 = ulf\<lparr>buf := []\<rparr>" "w1 = w\<lparr>files := (files w)(?p \<mapsto> buf ulf)\<rparr>"
    using assms(4) write_stores [OF assms(1-3)] by (simp_all add: uploadedfileSave_def)
  have same: "savePath ulf1 arg = ?p"
    by (simp add: first(2) savePath_buf)
  have there: "files w1 ?p \<noteq> None"
    by (simp add: first(3))
  have "uploadedfileSave ulf1 arg w1 = (False, ulf1, logError (?p @ '' already exists'') w1)"
    by (simp add: uploadedfileSave_def same write_exists [OF there])
  with assms(5) have second: "\<not> ok2" "ulf2 = ulf1" "w2 = logError (?p @ '' already exists'') w1"
    by simp_all
  show ?thesis
    using first second by (simp add: logError_def)
qed

text \<open>An instance: two saves of \<open>exampleUpload\<close> in the empty world.\<close>

theorem save_twice_to_same_path_witness:
  "files emptyWorld (savePath exampleUpload None) = None
   \<and> openError emptyWorld (savePath exampleUpload None) = None
   \<and> fst (uploadedfileSave exampleUpload None emptyWorld)
   \<and> files (snd (snd (uploadedfileSave exampleUpload None emptyWorld))) ''/srv/a.txt'' =
       Some [0, 0, 0]
   \<and> fst (uploadedfileSave (fst (snd (uploadedfileSave exampleUpload None emptyWorld))) None
            (snd (snd (uploadedfileSave exampleUpload None emptyWorld)))) = False
   \<and> files (snd (snd (uploadedfileSave
              (fst (snd (uploadedfileSave exampleUpload None emptyWorld))) None
              (snd (snd (uploadedfileSave exampleUpload None emptyWorld))))))
       = files (snd (snd (uploadedfileSave exampleUpload None emptyWorld)))"
  using save_twice_to_same_path [of emptyWorld exampleUpload None
      "fst (uploadedfileSave exampleUpload None emptyWorld)"
      "fst (snd (uploadedfileSave exampleUpload None emptyWorld))"
      "snd (snd (uploadedfileSave exampleUpload None emptyWorld))"
      "fst (uploadedfileSave (fst (snd (uploadedfileSave exampleUpload None emptyWorld))) None
              (snd (snd (uploadedfileSave exampleUpload None emptyWorld))))"
      "fst (snd (uploadedfileSave (fst (snd (uploadedfileSave exampleUpload None emptyWorld))) None
              (snd (snd (uploadedfileSave exampleUpload None emptyWorld)))))"
      "snd (snd (uploadedfileSave (fst (snd (uploadedfileSave exampleUpload None emptyWorld))) None
              (snd (snd (uploadedfileSave exampleUpload None emptyWorld)))))"]
  by (simp add: savePath_example) (simp add: emptyWorld_def exampleUpload_def)




text \<open>
  Claim C8. \<^verbatim>\<open>savein\<close> with an absolute directory writes to that directory joined with the
  upload's own file name, and the script directory plays no part; with a relative
  directory it writes to the script directory joined with the directory joined with the
  file name.
\<close>

theorem saveIn_destination:
  "(IsAbs givenDirectory \<longrightarrow>
      uploadedfileSaveIn ulf givenDirectory w =
        (case UploadedFile_write ulf (Join [givenDirectory, filename ulf]) w of
           (err, ulf', w') \<Rightarrow> (err = None, ulf', w'))
      \<and> saveInPath (ulf\<lparr>scriptdir := other\<rparr>) givenDirectory = saveInPath ulf givenDirectory)
   \<and> (\<not> IsAbs givenDirectory \<longrightarrow>
      uploadedfileSaveIn ulf givenDirectory w =
        (case UploadedFile_write ulf (Join [scriptdir ulf, givenDirectory, filename ulf]) w of
           (err, ulf', w') \<Rightarrow> (err = None, ulf', w')))"
  by (simp add: uploadedfileSaveIn_def saveInPath_def)

text \<open>An instance: with the script directory \<^verbatim>\<open>/srv\<close>, the directory \<^verbatim>\<open>/tmp/up\<close> leads to
  \<^verbatim>\<open>/tmp/up/a.txt\<close> and the directory \<^verbatim>\<open>up\<close> to \<^verbatim>\<open>/srv/up/a.txt\<close>.\<close>

theorem saveIn_destination_witness:
  "IsAbs ''/tmp/up'' \<and> \<not> IsAbs ''up''
   \<and> uploadedfileSaveIn exampleUpload ''/tmp/up'' emptyWorld =
       (True, exampleUpload\<lparr>buf := []\<rparr>,
        emptyWorld\<lparr>files := [''/tmp/up/a.txt'' \<mapsto> [0, 0, 0]]\<rparr>)
   \<and> uploadedfileSaveIn exampleUpload ''up'' emptyWorld =
       (True, exampleUpload\<lparr>buf := []\<rparr>,
        emptyWorld\<lparr>files := [''/srv/up/a.txt'' \<mapsto> [0, 0, 0]]\<rparr>)"
proof -
  have j1: "Join [''/tmp/up'', filename exampleUpload] = ''/tmp/up/a.txt''"
    by (simp add: exampleUpload_def Join_def Clean_def)
  have j2: "Join [scriptdir exampleUpload, ''up'', filename exampleUpload] = ''/srv/up/a.txt''"
    by (simp add: exampleUpload_def Join_def Clean_def)
  have a: "IsAbs ''/tmp/up''" and r: "\<not> IsAbs ''up''"
    by (simp_all add: IsAbs_def)
  from saveIn_destination [of "''/tmp/up''" exampleUpload emptyWorld "''/elsewhere''"]
       saveIn_destination [of "''up''" exampleUpload emptyWorld "''/elsewhere''"] a r
  show ?thesis
    by (simp add: j1 j2 UploadedFile_write_def) (simp add: emptyWorld_def exampleUpload_def)
qed






end
